theory Spec2Isabelle
  imports Complex_Main
begin

section \<open>Numbers, arrays and errors\<close>

text \<open>
  The programs of \<^verbatim>\<open>pls/pls_classes.py\<close> and \<^verbatim>\<open>plsrri/bootstrap_permutation.py\<close>
  compute on NumPy arrays of floats. Finite values are modelled as \<^typ>\<open>real\<close>
  (rounding is not modelled); the special values that a division produces are kept,
  because NumPy does not raise on them: \<open>x / 0\<close> is an infinity, \<open>0 / 0\<close> is NaN.
  The sign of a zero divisor is not tracked (a real has one zero).
\<close>

datatype npfloat = Finite real | PosInf | NegInf | NaN

fun is_finite :: "npfloat \<Rightarrow> bool" where
  "is_finite (Finite x) = True"
| "is_finite PosInf = False"
| "is_finite NegInf = False"
| "is_finite NaN = False"

text \<open>\<^verbatim>\<open>a / b\<close> on finite floats, as NumPy's true division gives it.\<close>

definition np_true_divide :: "real \<Rightarrow> real \<Rightarrow> npfloat" where
  "np_true_divide a b =
     (if b \<noteq> 0 then Finite (a / b)
      else if a = 0 then NaN
      else if 0 < a then PosInf
      else NegInf)"

text \<open>\<^verbatim>\<open>np.divide(a, b)\<close> where the dividend may already be a special value.\<close>

fun np_divide :: "npfloat \<Rightarrow> real \<Rightarrow> npfloat" where
  "np_divide (Finite a) b = np_true_divide a b"
| "np_divide NaN b = NaN"
| "np_divide PosInf b = (if b < 0 then NegInf else PosInf)"
| "np_divide NegInf b = (if b < 0 then PosInf else NegInf)"

fun np_mul :: "npfloat \<Rightarrow> npfloat \<Rightarrow> npfloat" where
  "np_mul (Finite a) (Finite b) = Finite (a * b)"
| "np_mul NaN y = NaN"
| "np_mul x NaN = NaN"
| "np_mul (Finite a) PosInf = (if a = 0 then NaN else if 0 < a then PosInf else NegInf)"
| "np_mul (Finite a) NegInf = (if a = 0 then NaN else if 0 < a then NegInf else PosInf)"
| "np_mul PosInf (Finite b) = (if b = 0 then NaN else if 0 < b then PosInf else NegInf)"
| "np_mul NegInf (Finite b) = (if b = 0 then NaN else if 0 < b then NegInf else PosInf)"
| "np_mul PosInf PosInf = PosInf"
| "np_mul PosInf NegInf = NegInf"
| "np_mul NegInf PosInf = NegInf"
| "np_mul NegInf NegInf = PosInf"

fun np_add :: "npfloat \<Rightarrow> npfloat \<Rightarrow> npfloat" where
  "np_add (Finite a) (Finite b) = Finite (a + b)"
| "np_add NaN y = NaN"
| "np_add x NaN = NaN"
| "np_add PosInf NegInf = NaN"
| "np_add NegInf PosInf = NaN"
| "np_add PosInf y = PosInf"
| "np_add NegInf y = NegInf"
| "np_add x PosInf = PosInf"
| "np_add x NegInf = NegInf"

text \<open>
  A two-dimensional array is the list of its rows. Its shape is read off the list: the
  number of rows and the length of the first row. An array with no row has shape
  \<open>(0, 0)\<close> here (the list cannot remember a column count without a row); every array
  NumPy builds is rectangular.
\<close>

type_synonym matrix = "real list list"
type_synonym npmatrix = "npfloat list list"

definition nrows :: "'a list list \<Rightarrow> nat" where
  "nrows M = length M"

definition ncols :: "'a list list \<Rightarrow> nat" where
  "ncols M = (case M of [] \<Rightarrow> 0 | r # _ \<Rightarrow> length r)"

definition rect :: "'a list list \<Rightarrow> bool" where
  "rect M = list_all (\<lambda>r. length r = ncols M) M"

definition column :: "'a list list \<Rightarrow> nat \<Rightarrow> 'a list" where
  "column M j = map (\<lambda>r. r ! j) M"

text \<open>\<^verbatim>\<open>M.T\<close>\<close>

definition np_T :: "'a list list \<Rightarrow> 'a list list" where
  "np_T M = map (column M) [0..<ncols M]"

datatype error =
    NotImplementedError
  | ValueError
  | TypeError
  | AttributeError
  | LinAlgError

definition dot :: "real list \<Rightarrow> real list \<Rightarrow> real" where
  "dot xs ys = sum_list (map2 (*) xs ys)"

text \<open>
  \<^verbatim>\<open>A @ B\<close> and \<^verbatim>\<open>np.dot(A, B)\<close> on two-dimensional arrays: NumPy raises
  \<^verbatim>\<open>ValueError\<close> when the inner dimensions differ. A left factor with no row has
  no column count in this representation and is taken to fit any right factor; the
  product then has no row either.
\<close>

definition matmul :: "matrix \<Rightarrow> matrix \<Rightarrow> error + matrix" where
  "matmul A B =
     (if A \<noteq> [] \<and> ncols A \<noteq> nrows B then Inl ValueError
      else Inr (map (\<lambda>r. map (\<lambda>j. dot r (column B j)) [0..<ncols B]) A))"

text \<open>\<^verbatim>\<open>np.sqrt(np.sum(np.power(M, 2), axis=0))\<close>: the Euclidean norm of every column.\<close>

definition axis0_norms :: "matrix \<Rightarrow> real list" where
  "axis0_norms M = map (\<lambda>j. sqrt (sum_list (map (\<lambda>x. x\<^sup>2) (column M j)))) [0..<ncols M]"

text \<open>\<^verbatim>\<open>np.linalg.norm(M)\<close> of a two-dimensional array: the Frobenius norm.\<close>

definition linalg_norm :: "matrix \<Rightarrow> real" where
  "linalg_norm M = sqrt (sum_list (map (\<lambda>x. x\<^sup>2) (concat M)))"

section \<open>The driver of \<^verbatim>\<open>pls_classes.py\<close>\<close>

subsection \<open>\<^verbatim>\<open>_get_groups_info\<close>\<close>

definition get_groups_info :: "int list option \<Rightarrow> int list \<times> nat" where
  "get_groups_info groups_tuple =
     (case groups_tuple of None \<Rightarrow> ([], 0) | Some gs \<Rightarrow> (gs, length gs))"

subsection \<open>\<^verbatim>\<open>_get_cond_order\<close>\<close>

text \<open>
  \<^verbatim>\<open>
  cond_order = []
  for i in range(len(groups_tuple)):
      group_list = []
      for k in range(num_conditions):
          group_list.extend([k] * groups_tuple[i])
          cond_order.append(group_list)
  return cond_order
  \<close>
  \<^verbatim>\<open>cond_order\<close> holds references: the list appended at step \<open>k\<close> is the object that the
  later steps go on extending. The store maps an address (an index) to the list object
  living there; \<^verbatim>\<open>cond_order\<close> is a list of addresses, read through the store when the
  function returns.
\<close>

record cond_store =
  objects :: "int list list"
  cond_refs :: "nat list"

text \<open>The inner loop: \<open>gl\<close> is the address of \<^verbatim>\<open>group_list\<close>, \<open>sz\<close> is \<^verbatim>\<open>groups_tuple[i]\<close>.\<close>

fun cond_inner :: "int \<Rightarrow> nat \<Rightarrow> int list \<Rightarrow> cond_store \<Rightarrow> cond_store" where
  "cond_inner sz gl [] st = st"
| "cond_inner sz gl (k # ks) st =
     cond_inner sz gl ks
       (st\<lparr>objects := (objects st)[gl := objects st ! gl @ replicate (nat sz) k],
           cond_refs := cond_refs st @ [gl]\<rparr>)"

text \<open>The outer loop allocates a fresh empty \<^verbatim>\<open>group_list\<close> for every group.\<close>

fun cond_outer :: "int list \<Rightarrow> int list \<Rightarrow> cond_store \<Rightarrow> cond_store" where
  "cond_outer [] ks st = st"
| "cond_outer (sz # gs) ks st =
     cond_outer gs ks
       (cond_inner sz (length (objects st)) ks (st\<lparr>objects := objects st @ [[]]\<rparr>))"

definition get_cond_order :: "int list \<Rightarrow> int \<Rightarrow> int list list" where
  "get_cond_order groups_tuple num_conditions =
     (let st = cond_outer groups_tuple (map int [0..<nat num_conditions])
                 \<lparr>objects = [], cond_refs = []\<rparr>
      in map (\<lambda>a. objects st ! a) (cond_refs st))"

text \<open>
  What the docstring of \<^verbatim>\<open>_get_cond_order\<close> describes: one sub-list per group, the
  conditions \<open>0, \<dots>, num_conditions - 1\<close> each repeated \<^verbatim>\<open>groups_tuple[i]\<close> times.
\<close>

definition cond_order_documented :: "int list \<Rightarrow> int \<Rightarrow> int list list" where
  "cond_order_documented groups_tuple num_conditions =
     map (\<lambda>sz. concat (map (\<lambda>k. replicate (nat sz) k) (map int [0..<nat num_conditions])))
       groups_tuple"

subsection \<open>\<^verbatim>\<open>_mean_center\<close>\<close>

text \<open>\<^verbatim>\<open>np.mean(X, axis=0)\<close>: the mean of every column.\<close>

definition mean_axis0 :: "matrix \<Rightarrow> real list" where
  "mean_axis0 X = map (\<lambda>j. sum_list (column X j) / real (nrows X)) [0..<ncols X]"

text \<open>\<^verbatim>\<open>np.ones((m, 1))\<close> and \<^verbatim>\<open>v.reshape((1, n))\<close> of a vector of length \<open>n\<close>.\<close>

definition np_ones_col :: "nat \<Rightarrow> matrix" where
  "np_ones_col m = replicate m [1]"

definition reshape_row :: "real list \<Rightarrow> matrix" where
  "reshape_row v = [v]"

text \<open>Element-wise \<^verbatim>\<open>A - B\<close> of two arrays of one shape.\<close>

definition mat_sub :: "matrix \<Rightarrow> matrix \<Rightarrow> matrix" where
  "mat_sub A B = map2 (map2 (-)) A B"

text \<open>\<^verbatim>\<open>M / c\<close> for a scalar \<open>c\<close>.\<close>

definition mat_div_scalar :: "matrix \<Rightarrow> real \<Rightarrow> npmatrix" where
  "mat_div_scalar M c = map (map (\<lambda>x. np_true_divide x c)) M"

text \<open>
  \<^verbatim>\<open>
  if ngroups == 1:
      prod = np.dot(np.ones((X.shape[0], 1)), np.mean(X, axis=0).reshape((1, X.shape[1])))
      X_means = X - prod
      X_mc = X_means / np.linalg.norm(X_means)
      return (X_means, X_mc)
  else:
      raise exceptions.NotImplementedError(...)
  \<close>
\<close>

definition mean_center :: "matrix \<Rightarrow> int \<Rightarrow> error + (matrix \<times> npmatrix)" where
  "mean_center X ngroups =
     (if ngroups = 1 then
        (case matmul (np_ones_col (nrows X)) (reshape_row (mean_axis0 X)) of
           Inl e \<Rightarrow> Inl e
         | Inr prd \<Rightarrow>
             (let X_means = mat_sub X prd;
                  X_mc = mat_div_scalar X_means (linalg_norm X_means)
              in Inr (X_means, X_mc)))
      else Inl NotImplementedError)"

text \<open>
  The same result in the words of the specification: \<open>X\<close> minus the row-wise broadcast of
  its column means, and that matrix divided by its Frobenius norm.
\<close>

definition centered :: "matrix \<Rightarrow> matrix" where
  "centered X = map (\<lambda>row. map2 (-) row (mean_axis0 X)) X"

definition frobenius :: "matrix \<Rightarrow> real" where
  "frobenius M = sqrt (\<Sum>row\<leftarrow>M. \<Sum>x\<leftarrow>row. x\<^sup>2)"

definition centered_scaled :: "matrix \<Rightarrow> npmatrix" where
  "centered_scaled X = map (map (\<lambda>x. np_true_divide x (frobenius (centered X)))) (centered X)"

subsection \<open>\<^verbatim>\<open>_run_pls\<close> and \<^verbatim>\<open>_compute_latents\<close>\<close>

text \<open>
  \<^verbatim>\<open>gsvd.gsvd\<close> belongs to a module that is not part of the sources at hand; it is a
  parameter of the model. It receives the matrix \<^verbatim>\<open>X_mc\<close>, whose entries are NaN when
  the centred matrix is zero, and may raise.
\<close>

type_synonym gsvd_fn = "npmatrix \<Rightarrow> error + (matrix \<times> real list \<times> matrix)"

definition run_pls :: "gsvd_fn \<Rightarrow> npmatrix \<Rightarrow> int \<Rightarrow> error + (matrix \<times> real list \<times> matrix)" where
  "run_pls gsvd mc ngroups = (if ngroups = 1 then gsvd mc else Inl NotImplementedError)"

definition np_sum :: "npfloat list \<Rightarrow> npfloat" where
  "np_sum xs = foldl np_add (Finite 0) xs"

text \<open>\<^verbatim>\<open>np.dot(I, EV)\<close> where the left factor may hold special values.\<close>

definition np_dot :: "npmatrix \<Rightarrow> matrix \<Rightarrow> error + npmatrix" where
  "np_dot A B =
     (if A \<noteq> [] \<and> ncols A \<noteq> nrows B then Inl ValueError
      else Inr (map (\<lambda>r. map (\<lambda>j. np_sum (map2 np_mul r (map Finite (column B j))))
                           [0..<ncols B]) A))"

definition compute_latents :: "npmatrix \<Rightarrow> matrix \<Rightarrow> int \<Rightarrow> error + npmatrix" where
  "compute_latents I EV ngroups =
     (if ngroups = 1 then np_dot I EV else Inl NotImplementedError)"

subsection \<open>Calling a name of another module\<close>

text \<open>
  The constructor ends with the call
  \<^verbatim>\<open>
  self.resample_tests = bootstrap_permutation.ResampleTestTaskPLS(
      self.X, self.s, self.cond_order, preprocess=self._mean_center,
      nperm=self.num_perm, nboot=self.num_boot, ngroups=self.num_groups,
      nonrotated=None)
  \<close>
  Python looks the name up in the module, binds the arguments to the parameters of the
  class's \<^verbatim>\<open>__init__\<close> and only then runs its body. A module is modelled by the names
  its top level binds, a class by the parameters of its \<^verbatim>\<open>__init__\<close> after \<^verbatim>\<open>self\<close>.
\<close>

datatype pyparam = Required string | Optional string

fun param_name :: "pyparam \<Rightarrow> string" where
  "param_name (Required n) = n"
| "param_name (Optional n) = n"

fun is_required :: "pyparam \<Rightarrow> bool" where
  "is_required (Required n) = True"
| "is_required (Optional n) = False"

datatype pyobject = PyModule | PyAbstractClass | PyClass "pyparam list"

text \<open>
  The names bound at the top level of \<^verbatim>\<open>plsrri/bootstrap_permutation.py\<close>. It is the
  one module named \<^verbatim>\<open>bootstrap_permutation\<close> among the sources at hand, and the
  driver's \<^verbatim>\<open>import bootstrap_permutation\<close> is taken to resolve to it, although the
  driver lives in the directory \<^verbatim>\<open>pls\<close>.
\<close>

definition resample_test_params :: "pyparam list" where
  "resample_test_params =
     [Required ''X'', Required ''Y'', Required ''U'', Required ''s'', Required ''V'',
      Required ''cond_order'', Optional ''preprocess'', Optional ''nperm'',
      Optional ''nboot'', Optional ''ngroups'', Optional ''dist'',
      Optional ''rotate_method'']"

definition bootstrap_permutation_module :: "(string \<times> pyobject) list" where
  "bootstrap_permutation_module =
     [(''abc'', PyModule), (''np'', PyModule), (''scipy'', PyModule), (''gsvd'', PyModule),
      (''resample'', PyModule), (''exceptions'', PyModule),
      (''ResampleTest'', PyAbstractClass),
      (''_ResampleTestTaskPLS'', PyClass resample_test_params)]"

definition module_getattr :: "(string \<times> pyobject) list \<Rightarrow> string \<Rightarrow> error + pyobject" where
  "module_getattr m name =
     (case map_of m name of None \<Rightarrow> Inl AttributeError | Some ob \<Rightarrow> Inr ob)"

text \<open>
  Binding a call's arguments: positional arguments fill the parameters in order, keyword
  arguments by name. Too many positional arguments, a keyword that names no parameter or
  one already filled, and a required parameter left unfilled are each a
  \<^verbatim>\<open>TypeError\<close>. The result lists the parameters that received an argument.
\<close>

definition bind_arguments ::
  "pyparam list \<Rightarrow> 'v list \<Rightarrow> (string \<times> 'v) list \<Rightarrow> error + (string \<times> 'v) list" where
  "bind_arguments ps pos kw =
     (let names = map param_name ps;
          filled = take (length pos) names;
          given = filled @ map fst kw
      in if length ps < length pos then Inl TypeError
         else if list_ex (\<lambda>k. k \<in> set filled \<or> k \<notin> set names) (map fst kw) then Inl TypeError
         else if \<not> distinct (map fst kw) then Inl TypeError
         else if list_ex (\<lambda>p. is_required p \<and> param_name p \<notin> set given) ps then Inl TypeError
         else Inr (zip filled pos @ kw))"

text \<open>The values the driver passes.\<close>

datatype pyvalue =
    VNone
  | VInt int
  | VMatrix matrix
  | VVector "real list"
  | VCondOrder "int list list"
  | VFunction string

text \<open>
  Calling an object: a module is not callable, an abstract class cannot be instantiated,
  a class binds the arguments and then runs its constructor, here the parameter
  \<open>ctor\<close> applied to the bound arguments.
\<close>

definition call_object ::
  "((string \<times> pyvalue) list \<Rightarrow> error + 'r) \<Rightarrow> pyobject \<Rightarrow> pyvalue list \<Rightarrow>
     (string \<times> pyvalue) list \<Rightarrow> error + 'r" where
  "call_object ctor ob pos kw =
     (case ob of
        PyModule \<Rightarrow> Inl TypeError
      | PyAbstractClass \<Rightarrow> Inl TypeError
      | PyClass ps \<Rightarrow>
          (case bind_arguments ps pos kw of Inl e \<Rightarrow> Inl e | Inr bound \<Rightarrow> ctor bound))"

subsection \<open>\<^verbatim>\<open>_MeanCenterTaskSingleGroupPLS.__init__\<close>\<close>

record 'r driver =
  drv_X :: matrix
  drv_groups_sizes :: "int list"
  drv_num_groups :: nat
  drv_num_conditions :: int
  drv_cond_order :: "int list list"
  drv_num_perm :: int
  drv_num_boot :: int
  drv_kwargs :: "(string \<times> pyvalue) list"
  drv_X_means :: matrix
  drv_X_mc :: npmatrix
  drv_U :: matrix
  drv_s :: "real list"
  drv_V :: matrix
  drv_X_latent :: npmatrix
  drv_resample_tests :: 'r

text \<open>
  The constructor, statement by statement. The keyword arguments of \<^verbatim>\<open>**kwargs\<close> are
  kept as a list; their names are taken to differ from the attributes the constructor
  sets itself. \<^verbatim>\<open>_compute_latents\<close> is called without \<^verbatim>\<open>ngroups\<close>, so with its
  default \<open>1\<close>.
\<close>

definition driver_init ::
  "gsvd_fn \<Rightarrow> ((string \<times> pyvalue) list \<Rightarrow> error + 'r) \<Rightarrow> matrix \<Rightarrow> matrix option \<Rightarrow>
     int list option \<Rightarrow> int \<Rightarrow> int list list option \<Rightarrow> int \<Rightarrow> int \<Rightarrow>
     (string \<times> pyvalue) list \<Rightarrow> error + 'r driver" where
  "driver_init gsvd ctor X Y groups_sizes num_conditions cond_order num_perm num_boot kwargs =
     (if Y \<noteq> None then Inl ValueError
      else
        (case get_groups_info groups_sizes of (gs, ng) \<Rightarrow>
           (let co = (case cond_order of None \<Rightarrow> get_cond_order gs num_conditions
                      | Some c \<Rightarrow> c)
            in case mean_center X (int ng) of Inl e \<Rightarrow> Inl e
               | Inr (X_means, X_mc) \<Rightarrow>
             (case run_pls gsvd X_mc (int ng) of Inl e \<Rightarrow> Inl e
               | Inr (U, s, V) \<Rightarrow>
             (case compute_latents X_mc V 1 of Inl e \<Rightarrow> Inl e
               | Inr X_latent \<Rightarrow>
             (case module_getattr bootstrap_permutation_module ''ResampleTestTaskPLS'' of
                 Inl e \<Rightarrow> Inl e
               | Inr cls \<Rightarrow>
             (case call_object ctor cls [VMatrix X, VVector s, VCondOrder co]
                     [(''preprocess'', VFunction ''_mean_center''), (''nperm'', VInt num_perm),
                      (''nboot'', VInt num_boot), (''ngroups'', VInt (int ng)),
                      (''nonrotated'', VNone)] of
                 Inl e \<Rightarrow> Inl e
               | Inr rt \<Rightarrow>
                   Inr \<lparr>drv_X = X, drv_groups_sizes = gs, drv_num_groups = ng,
                        drv_num_conditions = num_conditions, drv_cond_order = co,
                        drv_num_perm = num_perm, drv_num_boot = num_boot,
                        drv_kwargs = kwargs, drv_X_means = X_means, drv_X_mc = X_mc,
                        drv_U = U, drv_s = s, drv_V = V, drv_X_latent = X_latent,
                        drv_resample_tests = rt\<rparr>)))))))"

text \<open>The centred matrix divided by its Frobenius norm, where that norm is not zero.\<close>

definition unit_scaled :: "matrix \<Rightarrow> matrix" where
  "unit_scaled X = map (map (\<lambda>x. x / frobenius (centered X))) (centered X)"

section \<open>The resampling tests of \<^verbatim>\<open>bootstrap_permutation.py\<close>\<close>

subsection \<open>External collaborators\<close>

text \<open>
  The engines call into code that is not part of the sources at hand; the model takes it
  as parameters:
  \<^item> \<^verbatim>\<open>resample.resample_without_replacement(M, cond_order)\<close> and
    \<^verbatim>\<open>resample.resample_with_replacement(M, cond_order)\<close> draw from a source of
    randomness. The model threads the state \<open>'g\<close> of that source through every call;
  \<^item> \<^verbatim>\<open>np.linalg.svd(M, full_matrices=False)\<close>, returning \<open>(U, s, Vh)\<close>, and
    \<^verbatim>\<open>np.linalg.svd(M, compute_uv=False)\<close>, returning the singular values;
  \<^item> \<^verbatim>\<open>resample.confidence_interval(slots)\<close>, called with one argument.
\<close>

type_synonym 'g resampler = "'g \<Rightarrow> matrix \<Rightarrow> int list list \<Rightarrow> matrix \<times> 'g"

record 'g oracles =
  resample_without_replacement :: "'g resampler"
  resample_with_replacement :: "'g resampler"
  linalg_svd :: "matrix \<Rightarrow> matrix \<times> real list \<times> matrix"
  linalg_svdvals :: "matrix \<Rightarrow> real list"
  confidence_interval :: "matrix list \<Rightarrow> matrix \<times> matrix"

text \<open>
  The preprocessing function is an argument of both engines, \<^verbatim>\<open>None\<close> by default. It
  is called as \<^verbatim>\<open>preprocess(X_new, cond_order, return_means=False)\<close> when there is no
  \<open>Y\<close> and as \<^verbatim>\<open>preprocess(X_new, Y_new, cond_order)\<close> otherwise; the optional second
  matrix tells the two calls apart. Calling \<^verbatim>\<open>None\<close> is a \<^verbatim>\<open>TypeError\<close>.
\<close>

type_synonym preprocess_fn = "matrix \<Rightarrow> matrix option \<Rightarrow> int list list \<Rightarrow> matrix"

definition call_preprocess ::
  "preprocess_fn option \<Rightarrow> matrix \<Rightarrow> matrix option \<Rightarrow> int list list \<Rightarrow> error + matrix" where
  "call_preprocess preprocess X_new Y_new cond_order =
     (case preprocess of None \<Rightarrow> Inl TypeError | Some f \<Rightarrow> Inr (f X_new Y_new cond_order))"

text \<open>The arguments both engines share.\<close>

record test_args =
  arg_X :: matrix
  arg_Y :: "matrix option"
  arg_U :: matrix
  arg_s :: "real list"
  arg_V :: matrix
  arg_cond_order :: "int list list"
  arg_ngroups :: int
  arg_preprocess :: "preprocess_fn option"
  arg_rotate_method :: int

text \<open>
  The first statements of every iteration of either loop:
  \<^verbatim>\<open>
  X_new = resample.resample_...(X, cond_order)
  if Y is not None:
      Y_new = resample.resample_...(Y, cond_order)
  \<close>
\<close>

definition resample_pair ::
  "'g resampler \<Rightarrow> 'g \<Rightarrow> matrix \<Rightarrow> matrix option \<Rightarrow> int list list \<Rightarrow>
     matrix \<times> matrix option \<times> 'g" where
  "resample_pair resample g X Y cond_order =
     (case resample g X cond_order of (X_new, g1) \<Rightarrow>
        (case Y of None \<Rightarrow> (X_new, None, g1)
         | Some y \<Rightarrow>
             (case resample g1 y cond_order of (Y_new, g2) \<Rightarrow> (X_new, Some Y_new, g2))))"

subsection \<open>\<^verbatim>\<open>_permutation_test\<close>\<close>

text \<open>
  Rotation method 1 of the permutation test:
  \<^verbatim>\<open>
  U_hat, s_hat, V_hat = np.linalg.svd(permuted, full_matrices=False)
  U_bar, s_bar, V_bar = np.linalg.svd(V.T @ V_hat, full_matrices=False)
  rot = U_bar @ V.T
  V_rot = V_hat @ rot
  permuted_rot = permuted @ V_rot
  s_rot = np.sqrt(np.sum(np.power(permuted_rot.T, 2), axis=0))
  \<close>
  The function returns \<open>(rot, V_rot, permuted_rot, s_rot)\<close>.
\<close>

definition perm_rotation ::
  "'g oracles \<Rightarrow> matrix \<Rightarrow> matrix \<Rightarrow> error + (matrix \<times> matrix \<times> matrix \<times> real list)" where
  "perm_rotation orc permuted V =
     (case linalg_svd orc permuted of (U_hat, s_hat, V_hat) \<Rightarrow>
        (case matmul (np_T V) V_hat of Inl e \<Rightarrow> Inl e
         | Inr M \<Rightarrow>
        (case linalg_svd orc M of (U_bar, s_bar, V_bar) \<Rightarrow>
        (case matmul U_bar (np_T V) of Inl e \<Rightarrow> Inl e
         | Inr rot \<Rightarrow>
        (case matmul V_hat rot of Inl e \<Rightarrow> Inl e
         | Inr V_rot \<Rightarrow>
        (case matmul permuted V_rot of Inl e \<Rightarrow> Inl e
         | Inr permuted_rot \<Rightarrow>
             Inr (rot, V_rot, permuted_rot, axis0_norms (np_T permuted_rot))))))))"

text \<open>
  Rotation method 2 of the permutation test:
  \<^verbatim>\<open>
  US_hat = permuted @ V
  s_hat = np.sqrt(np.sum(np.power(US_hat, 2), axis=0))
  \<close>
\<close>

definition perm_derived_singvals :: "matrix \<Rightarrow> matrix \<Rightarrow> error + real list" where
  "perm_derived_singvals permuted V =
     (case matmul permuted V of Inl e \<Rightarrow> Inl e | Inr US_hat \<Rightarrow> Inr (axis0_norms US_hat))"

text \<open>The \<^verbatim>\<open>if rotate_method == 0: ... elif ... else: raise\<close> chain.\<close>

definition perm_singvals :: "'g oracles \<Rightarrow> int \<Rightarrow> matrix \<Rightarrow> matrix \<Rightarrow> error + real list" where
  "perm_singvals orc rotate_method permuted V =
     (if rotate_method = 0 then Inr (linalg_svdvals orc permuted)
      else if rotate_method = 1 then
        (case perm_rotation orc permuted V of Inl e \<Rightarrow> Inl e
         | Inr (rot, V_rot, permuted_rot, s_rot) \<Rightarrow> Inr s_rot)
      else if rotate_method = 2 then perm_derived_singvals permuted V
      else Inl NotImplementedError)"

text \<open>
  \<^verbatim>\<open>greatersum += s_hat >= s\<close>. \<^verbatim>\<open>greatersum\<close> has the shape of \<open>s\<close>. NumPy broadcasts
  the comparison and then adds in place: that works when \<open>s_hat\<close> has the length of \<open>s\<close>
  or length one, and is a \<^verbatim>\<open>ValueError\<close> otherwise. The counts are whole numbers.
\<close>

definition add_exceedances :: "nat list \<Rightarrow> real list \<Rightarrow> real list \<Rightarrow> error + nat list" where
  "add_exceedances greatersum s_hat s =
     (if length s_hat = length s then
        Inr (map2 (+) greatersum (map2 (\<lambda>a b. if b \<le> a then 1 else 0) s_hat s))
      else if length s_hat = 1 then
        Inr (map2 (+) greatersum (map (\<lambda>b. if b \<le> hd s_hat then 1 else 0) s))
      else Inl ValueError)"

text \<open>
  One iteration of the loop. The state is the source of randomness and \<^verbatim>\<open>greatersum\<close>;
  an iteration that raises leaves the error.
\<close>

definition permutation_step ::
  "'g oracles \<Rightarrow> test_args \<Rightarrow> 'g \<times> nat list \<Rightarrow> error + ('g \<times> nat list)" where
  "permutation_step orc a st =
     (case st of (g, greatersum) \<Rightarrow>
      (case resample_pair (resample_without_replacement orc) g (arg_X a) (arg_Y a)
              (arg_cond_order a) of (X_new, Y_new, g') \<Rightarrow>
      (case call_preprocess (arg_preprocess a) X_new Y_new (arg_cond_order a) of
         Inl e \<Rightarrow> Inl e
       | Inr permuted \<Rightarrow>
      (case perm_singvals orc (arg_rotate_method a) permuted (arg_V a) of
         Inl e \<Rightarrow> Inl e
       | Inr s_hat \<Rightarrow>
      (case add_exceedances greatersum s_hat (arg_s a) of
         Inl e \<Rightarrow> Inl e
       | Inr greatersum' \<Rightarrow> Inr (g', greatersum'))))))"

text \<open>
  \<^verbatim>\<open>for i in range(niter)\<close>: the number of iterations left is the recursion argument.
  When an iteration raises, the loop stops; the result then carries \<^verbatim>\<open>greatersum\<close> as
  it stood when the exception left the loop.
\<close>

fun permutation_loop ::
  "'g oracles \<Rightarrow> test_args \<Rightarrow> nat \<Rightarrow> 'g \<times> nat list \<Rightarrow> (error \<times> nat list) + ('g \<times> nat list)" where
  "permutation_loop orc a 0 st = Inr st"
| "permutation_loop orc a (Suc n) st =
     (case permutation_step orc a st of
        Inl e \<Rightarrow> Inl (e, snd st)
      | Inr st' \<Rightarrow> permutation_loop orc a n st')"

text \<open>
  \<^verbatim>\<open>
  greatersum = np.zeros(s.shape)
  for i in range(niter): ...
  permute_ratio = greatersum / niter
  return permute_ratio
  \<close>
  The model also returns the state of the source of randomness.
\<close>

definition permutation_test ::
  "'g oracles \<Rightarrow> test_args \<Rightarrow> int \<Rightarrow> 'g \<Rightarrow> error + (npfloat list \<times> 'g)" where
  "permutation_test orc a niter g =
     (case permutation_loop orc a (nat niter) (g, replicate (length (arg_s a)) 0) of
        Inl (e, greatersum) \<Rightarrow> Inl e
      | Inr (g', greatersum) \<Rightarrow>
          Inr (map (\<lambda>c. np_true_divide (real c) (real_of_int niter)) greatersum, g'))"

subsection \<open>\<^verbatim>\<open>_bootstrap_test\<close>\<close>

text \<open>
  Rotation method 2 of the bootstrap test derives its singular values by
  \<^verbatim>\<open>
  US_hat = V.T @ permuted.T
  s_hat = np.sqrt(np.sum(np.power(US_hat, 2), axis=0))
  \<close>
\<close>

definition boot_derived_singvals :: "matrix \<Rightarrow> matrix \<Rightarrow> error + (matrix \<times> real list)" where
  "boot_derived_singvals permuted V =
     (case matmul (np_T V) (np_T permuted) of Inl e \<Rightarrow> Inl e
      | Inr US_hat \<Rightarrow> Inr (US_hat, axis0_norms US_hat))"

text \<open>\<^verbatim>\<open>np.linalg.inv(np.diag(v))\<close> for a vector without a zero entry.\<close>

definition inv_diag :: "real list \<Rightarrow> matrix" where
  "inv_diag v =
     map (\<lambda>i. map (\<lambda>j. if i = j then 1 / v ! i else 0) [0..<length v]) [0..<length v]"

text \<open>
  The rest of rotation method 2:
  \<^verbatim>\<open>
  U_hat_der = US_hat / s_hat
  V_hat = (np.linalg.inv(np.diag(s_hat)) @ (U.T @ permuted)).T
  U_hat = U_hat_der
  \<close>
  The division broadcasts \<open>s_hat\<close> along the rows of \<open>US_hat\<close>. Where an entry of
  \<open>s_hat\<close> is zero NumPy only warns at the division, and the inversion on the next line
  raises \<^verbatim>\<open>LinAlgError\<close> for the singular diagonal matrix: the quotient is used only
  when no entry is zero, and the model tests that first. The operands of the outer
  product are evaluated left to right, the inverse before \<open>U.T @ permuted\<close>.
\<close>

definition boot_derived_vectors ::
  "matrix \<Rightarrow> matrix \<Rightarrow> matrix \<Rightarrow> error + (matrix \<times> matrix)" where
  "boot_derived_vectors permuted U V =
     (case boot_derived_singvals permuted V of Inl e \<Rightarrow> Inl e
      | Inr (US_hat, s_hat) \<Rightarrow>
          if list_ex (\<lambda>x. x = 0) s_hat then Inl LinAlgError
          else
            (let U_hat_der = map (\<lambda>row. map2 (/) row s_hat) US_hat
             in case matmul (np_T U) permuted of Inl e \<Rightarrow> Inl e
                | Inr UtP \<Rightarrow>
                    (case matmul (inv_diag s_hat) UtP of Inl e \<Rightarrow> Inl e
                     | Inr W \<Rightarrow> Inr (U_hat_der, np_T W))))"

text \<open>
  The \<^verbatim>\<open>if rotate_method == 0: ... elif ... else: raise\<close> chain of the bootstrap test,
  returning \<open>(U_hat, V_hat)\<close>. Method 0 transposes the third component of the
  decomposition; method 1 does not, and its \<^verbatim>\<open>s_pro\<close> is computed and never read.
\<close>

definition boot_vectors ::
  "'g oracles \<Rightarrow> int \<Rightarrow> matrix \<Rightarrow> matrix \<Rightarrow> matrix \<Rightarrow> error + (matrix \<times> matrix)" where
  "boot_vectors orc rotate_method permuted U V =
     (if rotate_method = 0 then
        (case linalg_svd orc permuted of (U_hat, s_hat, V_hat) \<Rightarrow> Inr (U_hat, np_T V_hat))
      else if rotate_method = 1 then
        (case linalg_svd orc permuted of (U_hat, s_hat, V_hat) \<Rightarrow>
           (case matmul (np_T V) V_hat of Inl e \<Rightarrow> Inl e
            | Inr M \<Rightarrow>
                (case linalg_svd orc M of (U_bar, s_bar, V_bar) \<Rightarrow> Inr (U_hat, V_hat))))
      else if rotate_method = 2 then boot_derived_vectors permuted U V
      else Inl NotImplementedError)"

text \<open>
  \<^verbatim>\<open>left_sv_sampled[i] = U_hat\<close>: the slot has the shape of the reference matrix. NumPy
  broadcasts the value into the slot (a dimension of length one is repeated) and raises
  \<^verbatim>\<open>ValueError\<close> when the shapes do not fit.
\<close>

definition assign_slot :: "nat \<times> nat \<Rightarrow> matrix \<Rightarrow> error + matrix" where
  "assign_slot shp M =
     (case shp of (r, c) \<Rightarrow>
        if (nrows M = r \<or> nrows M = 1) \<and> (ncols M = c \<or> ncols M = 1) then
          Inr (map (\<lambda>i. map (\<lambda>j. M ! (if nrows M = 1 then 0 else i)
                                     ! (if ncols M = 1 then 0 else j)) [0..<c]) [0..<r])
        else Inl ValueError)"

definition shape :: "'a list list \<Rightarrow> nat \<times> nat" where
  "shape M = (nrows M, ncols M)"

text \<open>
  One iteration. The state is the source of randomness and the slots written so far:
  iteration \<open>i\<close> writes slot \<open>i\<close> of \<^verbatim>\<open>left_sv_sampled\<close> and of \<^verbatim>\<open>right_sv_sampled\<close>,
  so the written slots are the lists of the values stored, in order. (The arrays come
  from \<^verbatim>\<open>np.empty\<close>; a slot is read only after the loop has written all of them.)
\<close>

definition bootstrap_step ::
  "'g oracles \<Rightarrow> test_args \<Rightarrow> 'g \<times> matrix list \<times> matrix list \<Rightarrow>
     error + ('g \<times> matrix list \<times> matrix list)" where
  "bootstrap_step orc a st =
     (case st of (g, left_sv_sampled, right_sv_sampled) \<Rightarrow>
      (case resample_pair (resample_with_replacement orc) g (arg_X a) (arg_Y a)
              (arg_cond_order a) of (X_new, Y_new, g') \<Rightarrow>
      (case call_preprocess (arg_preprocess a) X_new Y_new (arg_cond_order a) of
         Inl e \<Rightarrow> Inl e
       | Inr permuted \<Rightarrow>
      (case boot_vectors orc (arg_rotate_method a) permuted (arg_U a) (arg_V a) of
         Inl e \<Rightarrow> Inl e
       | Inr (U_hat, V_hat) \<Rightarrow>
      (case assign_slot (shape (arg_U a)) U_hat of
         Inl e \<Rightarrow> Inl e
       | Inr left_slot \<Rightarrow>
      (case assign_slot (shape (arg_V a)) V_hat of
         Inl e \<Rightarrow> Inl e
       | Inr right_slot \<Rightarrow>
           Inr (g', left_sv_sampled @ [left_slot], right_sv_sampled @ [right_slot])))))))"

fun bootstrap_loop ::
  "'g oracles \<Rightarrow> test_args \<Rightarrow> nat \<Rightarrow> 'g \<times> matrix list \<times> matrix list \<Rightarrow>
     (error \<times> matrix list \<times> matrix list) + ('g \<times> matrix list \<times> matrix list)" where
  "bootstrap_loop orc a 0 st = Inr st"
| "bootstrap_loop orc a (Suc n) st =
     (case bootstrap_step orc a st of
        Inl e \<Rightarrow> Inl (e, snd st)
      | Inr st' \<Rightarrow> bootstrap_loop orc a n st')"

text \<open>
  \<^verbatim>\<open>scipy.stats.sem(a, axis=0)\<close>: the standard error of the mean over the iterations,
  with one degree of freedom removed. With fewer than two values the variance is
  \<open>0 / 0\<close>, NaN.
\<close>

definition sem_list :: "real list \<Rightarrow> npfloat" where
  "sem_list xs =
     (let n = length xs
      in if n \<le> 1 then NaN
         else
           (let mean = sum_list xs / real n;
                var = sum_list (map (\<lambda>x. (x - mean)\<^sup>2) xs) / real (n - 1)
            in Finite (sqrt var / sqrt (real n))))"

definition stats_sem_axis0 :: "nat \<times> nat \<Rightarrow> matrix list \<Rightarrow> npmatrix" where
  "stats_sem_axis0 shp slots =
     (case shp of (r, c) \<Rightarrow>
        map (\<lambda>i. map (\<lambda>j. sem_list (map (\<lambda>T. T ! i ! j) slots)) [0..<c]) [0..<r])"

text \<open>\<^verbatim>\<open>np.divide(A, B)\<close> of two arrays of one shape.\<close>

definition np_divide_arrays :: "npmatrix \<Rightarrow> matrix \<Rightarrow> npmatrix" where
  "np_divide_arrays A B = map2 (map2 np_divide) A B"

text \<open>
  \<^verbatim>\<open>
  left_sv_sampled = np.empty((niter, U.shape[0], U.shape[1]))
  right_sv_sampled = np.empty((niter, V.shape[0], V.shape[1]))
  for i in range(niter): ...
  conf_int = resample.confidence_interval(left_sv_sampled)
  std_errs = scipy.stats.sem(right_sv_sampled, axis=0)
  boot_ratios = np.divide(std_errs, V)
  return (conf_int, std_errs, boot_ratios)
  \<close>
  \<^verbatim>\<open>np.empty\<close> raises \<^verbatim>\<open>ValueError\<close> for a negative dimension.
\<close>

definition bootstrap_test ::
  "'g oracles \<Rightarrow> test_args \<Rightarrow> int \<Rightarrow> real \<times> real \<Rightarrow> 'g \<Rightarrow>
     error + (((matrix \<times> matrix) \<times> npmatrix \<times> npmatrix) \<times> 'g)" where
  "bootstrap_test orc a niter dist' g =
     (if niter < 0 then Inl ValueError
      else
        (case bootstrap_loop orc a (nat niter) (g, [], []) of
           Inl (e, slots) \<Rightarrow> Inl e
         | Inr (g', left_sv_sampled, right_sv_sampled) \<Rightarrow>
             (let conf_int = confidence_interval orc left_sv_sampled;
                  std_errs = stats_sem_axis0 (shape (arg_V a)) right_sv_sampled;
                  boot_ratios = np_divide_arrays std_errs (arg_V a)
              in Inr ((conf_int, std_errs, boot_ratios), g'))))"

subsection \<open>\<^verbatim>\<open>_ResampleTestTaskPLS.__init__\<close>\<close>

record resample_test =
  rt_dist :: "real \<times> real"
  rt_permute_ratio :: "npfloat list"
  rt_conf_ints :: "matrix \<times> matrix"
  rt_std_errs :: npmatrix
  rt_boot_ratios :: npmatrix

definition resample_test_init ::
  "'g oracles \<Rightarrow> test_args \<Rightarrow> int \<Rightarrow> int \<Rightarrow> real \<times> real \<Rightarrow> 'g \<Rightarrow>
     error + (resample_test \<times> 'g)" where
  "resample_test_init orc a nperm nboot dist' g =
     (case permutation_test orc a nperm g of Inl e \<Rightarrow> Inl e
      | Inr (permute_ratio, g1) \<Rightarrow>
          (case bootstrap_test orc a nboot dist' g1 of Inl e \<Rightarrow> Inl e
           | Inr ((conf_ints, std_errs, boot_ratios), g2) \<Rightarrow>
               Inr (\<lparr>rt_dist = dist', rt_permute_ratio = permute_ratio,
                     rt_conf_ints = conf_ints, rt_std_errs = std_errs,
                     rt_boot_ratios = boot_ratios\<rparr>, g2)))"

section \<open>Notions of the specification\<close>

text \<open>
  Two resampled matrices keep the row correspondence of \<open>X\<close> and \<open>Y\<close> when one list of
  row indices produces both.
\<close>

definition same_row_order :: "matrix \<Rightarrow> matrix \<Rightarrow> matrix \<Rightarrow> matrix \<Rightarrow> bool" where
  "same_row_order X X_new Y Y_new =
     (\<exists>idx. list_all (\<lambda>i. i < length X \<and> i < length Y) idx \<and>
            X_new = map (\<lambda>i. X ! i) idx \<and> Y_new = map (\<lambda>i. Y ! i) idx)"

text \<open>The identity matrix, orthonormal columns, and a singular value decomposition.\<close>

definition identity :: "nat \<Rightarrow> matrix" where
  "identity n = map (\<lambda>i. map (\<lambda>j. if i = j then 1 else 0) [0..<n]) [0..<n]"

definition orthonormal_columns :: "matrix \<Rightarrow> bool" where
  "orthonormal_columns Q = (matmul (np_T Q) Q = Inr (identity (ncols Q)))"

definition scale_columns :: "matrix \<Rightarrow> real list \<Rightarrow> matrix" where
  "scale_columns U sv = map (\<lambda>row. map2 (*) row sv) U"

definition is_svd :: "matrix \<Rightarrow> matrix \<times> real list \<times> matrix \<Rightarrow> bool" where
  "is_svd M d =
     (case d of (U, sv, Vh) \<Rightarrow>
        matmul (scale_columns U sv) Vh = Inr M \<and> orthonormal_columns U \<and>
        orthonormal_columns (np_T Vh) \<and> list_all (\<lambda>x. 0 \<le> x) sv \<and> sorted (rev sv))"


text \<open>The Euclidean norm of every row.\<close>

definition row_norms :: "matrix \<Rightarrow> real list" where
  "row_norms M = map (\<lambda>r. sqrt (sum_list (map (\<lambda>x. x\<^sup>2) r))) M"

text \<open>The squared Frobenius distance of two matrices of one shape.\<close>

definition sq_distance :: "matrix \<Rightarrow> matrix \<Rightarrow> real" where
  "sq_distance A B = (linalg_norm (mat_sub A B))\<^sup>2"

text \<open>
  Modelled from the spec: \<^verbatim>\<open>resample.confidence_interval\<close> is not part of the sources
  at hand. The specification describes it as the quantile-based confidence interval
  (lower, upper) of the slots, element-wise across the iteration axis; the class
  documents \<open>(0.05, 0.95)\<close> as the default bounds. The quantile interpolates linearly
  between the two nearest order statistics, as \<^verbatim>\<open>np.quantile\<close> does by default.
\<close>

definition quantile_linear :: "real \<Rightarrow> real list \<Rightarrow> real" where
  "quantile_linear q xs =
     (let ys = sort xs;
          h = q * real (length ys - 1);
          lo = nat \<lfloor>h\<rfloor>;
          hi = min (lo + 1) (length ys - 1)
      in ys ! lo + (h - real lo) * (ys ! hi - ys ! lo))"

definition quantile_axis0 :: "real \<Rightarrow> matrix list \<Rightarrow> matrix" where
  "quantile_axis0 q slots =
     (case slots of [] \<Rightarrow> []
      | T # _ \<Rightarrow>
          map (\<lambda>i. map (\<lambda>j. quantile_linear q (map (\<lambda>S. S ! i ! j) slots)) [0..<ncols T])
            [0..<nrows T])"

definition confidence_interval_at :: "real \<times> real \<Rightarrow> matrix list \<Rightarrow> matrix \<times> matrix" where
  "confidence_interval_at conf slots =
     (quantile_axis0 (fst conf) slots, quantile_axis0 (snd conf) slots)"

section \<open>Stand-ins for the collaborators\<close>

text \<open>
  To run the engines on concrete inputs the collaborators need concrete stand-ins. The
  resampler reads its row indices from a script: the state of the source of randomness is
  the list of the index lists still to be drawn, and every call consumes one.
\<close>

definition scripted_resample :: "nat list list resampler" where
  "scripted_resample g M cond_order =
     (case g of [] \<Rightarrow> (M, []) | idx # rest \<Rightarrow> (map (\<lambda>i. M ! i) idx, rest))"

text \<open>
  A table of singular value decompositions \<open>(U, s, Vh)\<close> for the matrices the examples
  decompose; \<open>svd_table_valid\<close> below checks every entry.
\<close>

definition svd_table :: "matrix \<Rightarrow> matrix \<times> real list \<times> matrix" where
  "svd_table M =
     (if M = [[3, 0], [0, 4]] then ([[0, 1], [1, 0]], [4, 3], [[0, 1], [1, 0]])
      else if M = [[0, 4], [3, 0]] then ([[1, 0], [0, 1]], [4, 3], [[0, 1], [1, 0]])
      else if M = [[3, 0], [4, 0]] then ([[3/5, - 4/5], [4/5, 3/5]], [5, 0], [[1, 0], [0, 1]])
      else if M = [[0, 1], [- 1, 0]] then ([[0, 1], [- 1, 0]], [1, 1], [[1, 0], [0, 1]])
      else ([], [], []))"

definition table_oracles :: "nat list list oracles" where
  "table_oracles =
     \<lparr>resample_without_replacement = scripted_resample,
      resample_with_replacement = scripted_resample,
      linalg_svd = svd_table,
      linalg_svdvals = (\<lambda>M. fst (snd (svd_table M))),
      confidence_interval = confidence_interval_at (5/100, 95/100)\<rparr>"

text \<open>
  A data set of two observations of two variables, its decomposition
  (\<open>U = [[0, 1], [1, 0]]\<close>, \<open>s = [4, 3]\<close>, \<open>V = [[0, 1], [1, 0]]\<close>), one group whose two
  rows share a condition, and a preprocessing function that returns the resampled matrix.
\<close>

definition example_args :: "int \<Rightarrow> test_args" where
  "example_args rotate_method =
     \<lparr>arg_X = [[3, 0], [0, 4]], arg_Y = None, arg_U = [[0, 1], [1, 0]], arg_s = [4, 3],
      arg_V = [[0, 1], [1, 0]], arg_cond_order = [[0, 0]], arg_ngroups = 1,
      arg_preprocess = Some (\<lambda>X_new Y_new cond_order. X_new),
      arg_rotate_method = rotate_method\<rparr>"




text \<open>
  A data set of three observations of two variables with its decomposition, and the
  decompositions rotation method 1 asks for on it; \<open>svd_table_tall_valid\<close> below checks
  both.
\<close>

definition svd_table_tall :: "matrix \<Rightarrow> matrix \<times> real list \<times> matrix" where
  "svd_table_tall M =
     (if M = [[3, 0], [0, 4], [0, 0]] then ([[0, 1], [1, 0], [0, 0]], [4, 3], [[0, 1], [1, 0]])
      else if M = [[1, 0], [0, 1]] then ([[1, 0], [0, 1]], [1, 1], [[1, 0], [0, 1]])
      else ([], [], []))"

definition tall_oracles :: "nat list list oracles" where
  "tall_oracles =
     \<lparr>resample_without_replacement = scripted_resample,
      resample_with_replacement = scripted_resample,
      linalg_svd = svd_table_tall,
      linalg_svdvals = (\<lambda>M. fst (snd (svd_table_tall M))),
      confidence_interval = confidence_interval_at (5/100, 95/100)\<rparr>"

definition tall_args :: "int \<Rightarrow> test_args" where
  "tall_args rotate_method =
     \<lparr>arg_X = [[3, 0], [0, 4], [0, 0]], arg_Y = None, arg_U = [[0, 1], [1, 0], [0, 0]],
      arg_s = [4, 3], arg_V = [[0, 1], [1, 0]], arg_cond_order = [[0, 0, 0]], arg_ngroups = 1,
      arg_preprocess = Some (\<lambda>X_new Y_new cond_order. X_new),
      arg_rotate_method = rotate_method\<rparr>"

section \<open>Evaluation of concrete arrays\<close>

lemmas array_eval = matmul_def ncols_def nrows_def column_def dot_def np_T_def axis0_norms_def
  upt_rec identity_def scale_columns_def mat_sub_def linalg_norm_def

lemmas engine_eval = resample_pair_def scripted_resample_def call_preprocess_def
  table_oracles_def svd_table_def example_args_def shape_def assign_slot_def

lemma sqrt_9: "sqrt 9 = 3"
  using real_sqrt_abs[of 3] by simp

lemma sqrt_16: "sqrt 16 = 4"
  using real_sqrt_abs[of 4] by simp

lemma sqrt_25: "sqrt 25 = 5"
  using real_sqrt_abs[of 5] by simp

text \<open>Every entry of the table is a singular value decomposition of its matrix.\<close>

lemma svd_table_valid:
  "is_svd [[3, 0], [0, 4]] (svd_table [[3, 0], [0, 4]])"
  "is_svd [[0, 4], [3, 0]] (svd_table [[0, 4], [3, 0]])"
  "is_svd [[3, 0], [4, 0]] (svd_table [[3, 0], [4, 0]])"
  "is_svd [[0, 1], [- 1, 0]] (svd_table [[0, 1], [- 1, 0]])"
  by (simp_all add: is_svd_def svd_table_def orthonormal_columns_def array_eval)

section \<open>The preprocessing of the driver\<close>

lemma map2_replicate_right:
  "map2 f xs (replicate (length xs) c) = map (\<lambda>x. f x c) xs"
  by (induction xs) auto

lemma ones_times_row:
  "matmul (np_ones_col m) (reshape_row v) = Inr (replicate m v)"
proof -
  have "map (\<lambda>j. dot [1] (column [v] j)) [0..<length v] = v"
    by (simp add: dot_def column_def map_nth)
  then show ?thesis
    by (cases m) (simp_all add: matmul_def np_ones_col_def reshape_row_def ncols_def nrows_def)
qed

lemma sum_list_concat_sq:
  "sum_list (map (\<lambda>x. x\<^sup>2) (concat M)) = (\<Sum>row\<leftarrow>M. \<Sum>x\<leftarrow>row. x\<^sup>2)" for M :: matrix
  by (induction M) auto

lemma linalg_norm_frobenius: "linalg_norm M = frobenius M"
  by (simp add: linalg_norm_def frobenius_def sum_list_concat_sq)

lemma mat_sub_broadcast:
  "mat_sub X (replicate (nrows X) v) = map (\<lambda>row. map2 (-) row v) X"
  by (simp add: mat_sub_def nrows_def map2_replicate_right)

lemma mean_center_eq: "mean_center X 1 = Inr (centered X, centered_scaled X)"
  by (simp add: mean_center_def ones_times_row mat_sub_broadcast linalg_norm_frobenius
      centered_def centered_scaled_def mat_div_scalar_def Let_def)

lemma sum_sq_scaled_row:
  "(\<Sum>x\<leftarrow>row. (x / f)\<^sup>2) = (\<Sum>x\<leftarrow>row. x\<^sup>2) / f\<^sup>2" for f :: real
  by (induction row) (simp_all add: power_divide add_divide_distrib)

lemma sum_sq_scaled:
  "(\<Sum>row\<leftarrow>M. \<Sum>x\<leftarrow>row. (x / f)\<^sup>2) = (\<Sum>row\<leftarrow>M. \<Sum>x\<leftarrow>row. x\<^sup>2) / f\<^sup>2"
  for f :: real
  by (induction M) (simp_all add: sum_sq_scaled_row add_divide_distrib)

lemma row_sq_nonneg: "0 \<le> (\<Sum>x\<leftarrow>row. x\<^sup>2)" for row :: "real list"
  by (induction row) simp_all

lemma sum_sq_nonneg: "0 \<le> (\<Sum>row\<leftarrow>M. \<Sum>x\<leftarrow>row. x\<^sup>2)" for M :: matrix
  by (induction M) (simp_all add: row_sq_nonneg)

lemma frobenius_scaled_unit:
  assumes "frobenius M \<noteq> 0"
  shows "frobenius (map (map (\<lambda>x. x / frobenius M)) M) = 1"
proof -
  let ?q = "\<Sum>row\<leftarrow>M. \<Sum>x\<leftarrow>row. x\<^sup>2"
  have sq: "(frobenius M)\<^sup>2 = ?q"
    by (simp add: frobenius_def sum_sq_nonneg)
  with assms have "?q \<noteq> 0" by auto
  then have one: "?q / (frobenius M)\<^sup>2 = 1"
    by (simp add: sq)
  have "frobenius (map (map (\<lambda>x. x / frobenius M)) M)
      = sqrt (\<Sum>row\<leftarrow>M. \<Sum>x\<leftarrow>row. (x / frobenius M)\<^sup>2)"
    by (simp add: frobenius_def comp_def)
  then show ?thesis
    by (simp add: sum_sq_scaled one)
qed

lemma centered_scaled_finite:
  assumes "frobenius (centered X) \<noteq> 0"
  shows "centered_scaled X = map (map Finite) (unit_scaled X)"
  using assms by (simp add: centered_scaled_def unit_scaled_def np_true_divide_def comp_def)

text \<open>
  C10. With \<open>ngroups = 1\<close> the preprocessing function of the driver returns the pair of
  \<open>X\<close> minus the row-wise broadcast of its column means, and of that centred matrix
  divided by its Frobenius norm. Where the norm is not zero the second matrix is finite
  and has Frobenius norm one: the driver decomposes the centred matrix rescaled to unit
  norm.
\<close>

theorem mean_center_single_group:
  "mean_center X 1 = Inr (centered X, centered_scaled X) \<and>
   (frobenius (centered X) \<noteq> 0 \<longrightarrow>
      centered_scaled X = map (map Finite) (unit_scaled X) \<and> frobenius (unit_scaled X) = 1)"
  using frobenius_scaled_unit[of "centered X"]
  by (simp add: mean_center_eq centered_scaled_finite unit_scaled_def)

lemma example_centered: "centered [[2, 2], [0, 0]] = [[1, 1], [- 1, - 1]]"
  by (simp add: centered_def mean_axis0_def ncols_def nrows_def column_def upt_rec)

lemma example_frobenius: "frobenius [[1, 1], [- 1, - 1]] = 2"
  by (simp add: frobenius_def)

theorem mean_center_single_group_witness:
  "frobenius (centered [[2, 2], [0, 0]]) \<noteq> 0 \<and>
   mean_center [[2, 2], [0, 0]] 1 =
     Inr ([[1, 1], [- 1, - 1]],
          [[Finite (1/2), Finite (1/2)], [Finite (- 1/2), Finite (- 1/2)]]) \<and>
   frobenius [[1/2, 1/2], [- 1/2, - 1/2]] = 1"
proof -
  have u: "unit_scaled [[2, 2], [0, 0]] = [[1/2, 1/2], [- 1/2, - 1/2]]"
    by (simp add: unit_scaled_def example_centered example_frobenius)
  have nz: "frobenius (centered [[2, 2], [0, 0]]) \<noteq> 0"
    by (simp add: example_centered example_frobenius)
  with mean_center_single_group[of "[[2, 2], [0, 0]]"] show ?thesis
    by (simp add: example_centered u)
qed

text \<open>
  The driver hands the second component to \<^verbatim>\<open>_run_pls\<close>: the decomposition is asked
  for \<open>centered_scaled X\<close> and for no other matrix.
\<close>

lemma driver_decomposes_centered_scaled:
  "driver_init gsvd ctor X Y groups_sizes num_conditions cond_order num_perm num_boot kwargs =
   driver_init (\<lambda>M. if M = centered_scaled X then gsvd M else Inl LinAlgError) ctor X Y
     groups_sizes num_conditions cond_order num_perm num_boot kwargs"
  by (simp add: driver_init_def mean_center_def ones_times_row mat_sub_broadcast
      linalg_norm_frobenius centered_def centered_scaled_def mat_div_scalar_def Let_def
      run_pls_def split: prod.splits)

section \<open>Shapes\<close>

lemma rect_row_length: "rect M \<Longrightarrow> i < nrows M \<Longrightarrow> length (M ! i) = ncols M"
  by (simp add: rect_def nrows_def list_all_length)

section \<open>The permutation test\<close>





















lemma permutation_step_unsupported:
  assumes "arg_rotate_method a \<noteq> 0" "arg_rotate_method a \<noteq> 1" "arg_rotate_method a \<noteq> 2"
    and "arg_preprocess a = Some pp"
  shows "permutation_step orc a st = Inl NotImplementedError"
  using assms
  by (simp add: permutation_step_def perm_singvals_def call_preprocess_def split: prod.splits)


text \<open>
  Rotation method 1 returns no ratio either when \<open>X\<close> is not square: its singular values
  are the row norms of the projected matrix, one per observation (the slip of C8), and
  the comparison with the two reference values raises \<^verbatim>\<open>ValueError\<close>. Both
  decompositions used are singular value decompositions of their matrices.
\<close>

lemma svd_table_tall_valid:
  "is_svd [[3, 0], [0, 4], [0, 0]] (svd_table_tall [[3, 0], [0, 4], [0, 0]])"
  "is_svd [[1, 0], [0, 1]] (svd_table_tall [[1, 0], [0, 1]])"
  by (simp_all add: is_svd_def svd_table_tall_def orthonormal_columns_def array_eval)

lemma rotation_one_on_tall_input:
  "perm_rotation tall_oracles [[3, 0], [0, 4], [0, 0]] [[0, 1], [1, 0]]
     = Inr ([[0, 1], [1, 0]], [[1, 0], [0, 1]], [[3, 0], [0, 4], [0, 0]], [3, 4, 0])"
  by (simp add: perm_rotation_def tall_oracles_def svd_table_tall_def array_eval sqrt_9 sqrt_16)

lemma rotation_one_raises_on_tall_input:
  "permutation_test tall_oracles (tall_args 1) 1 [] = Inl ValueError"
  by (simp add: permutation_test_def permutation_step_def perm_singvals_def perm_rotation_def
      add_exceedances_def resample_pair_def scripted_resample_def call_preprocess_def
      tall_oracles_def tall_args_def svd_table_tall_def array_eval)

section \<open>Unsupported rotation methods\<close>

lemma bootstrap_step_unsupported:
  assumes "arg_rotate_method a \<noteq> 0" "arg_rotate_method a \<noteq> 1" "arg_rotate_method a \<noteq> 2"
    and "arg_preprocess a = Some pp"
  shows "bootstrap_step orc a st = Inl NotImplementedError"
  using assms
  by (simp add: bootstrap_step_def boot_vectors_def call_preprocess_def split: prod.splits)

text \<open>
  C5. For a rotation method other than 0, 1 and 2, with a preprocessing function and at
  least one iteration, both engines raise \<^verbatim>\<open>NotImplementedError\<close>. The loop of the
  permutation test stops with \<^verbatim>\<open>greatersum\<close> still all zero, the loop of the bootstrap
  test with no slot written, and neither test returns a result.
\<close>

theorem unsupported_rotation_raises:
  assumes "arg_rotate_method a \<notin> {0, 1, 2}" and "arg_preprocess a = Some pp" and "1 \<le> niter"
  shows "permutation_loop orc a (nat niter) (g, replicate (length (arg_s a)) 0)
           = Inl (NotImplementedError, replicate (length (arg_s a)) 0)
       \<and> permutation_test orc a niter g = Inl NotImplementedError
       \<and> bootstrap_loop orc a (nat niter) (g, [], []) = Inl (NotImplementedError, [], [])
       \<and> bootstrap_test orc a niter dist' g = Inl NotImplementedError"
proof -
  from assms(3) obtain n where n: "nat niter = Suc n"
    by (cases "nat niter") auto
  from assms(1) have
    r: "arg_rotate_method a \<noteq> 0" "arg_rotate_method a \<noteq> 1" "arg_rotate_method a \<noteq> 2"
    by auto
  have p: "permutation_step orc a st = Inl NotImplementedError" for st
    by (rule permutation_step_unsupported[OF r assms(2)])
  have b: "bootstrap_step orc a st = Inl NotImplementedError" for st
    by (rule bootstrap_step_unsupported[OF r assms(2)])
  from assms(3) have nn: "\<not> niter < 0" by simp
  show ?thesis
    by (simp add: n nn p b permutation_test_def bootstrap_test_def)
qed

theorem unsupported_rotation_raises_witness:
  "arg_rotate_method (example_args 3) \<notin> {0, 1, 2} \<and> (1::int) \<le> 10 \<and>
   permutation_test table_oracles (example_args 3) 10 [] = Inl NotImplementedError \<and>
   bootstrap_loop table_oracles (example_args 3) (nat 10) ([], [], [])
     = Inl (NotImplementedError, [], []) \<and>
   bootstrap_test table_oracles (example_args 3) 10 (1/20, 19/20) [] = Inl NotImplementedError"
proof -
  have r: "arg_rotate_method (example_args 3) \<notin> {0, 1, 2}"
    by (simp add: example_args_def)
  have pp: "arg_preprocess (example_args 3) = Some (\<lambda>X_new Y_new cond_order. X_new)"
    by (simp add: example_args_def)
  have n: "(1::int) \<le> 10" by simp
  show ?thesis
    using r unsupported_rotation_raises[OF r pp n, of table_oracles "[]" "(1/20, 19/20)"]
    by simp
qed

text \<open>With no iteration the loop body never runs, and nothing is raised.\<close>

lemma unsupported_rotation_without_iterations:
  "permutation_test orc a 0 g = Inr (map (\<lambda>c. NaN) (arg_s a), g)"
  by (simp add: permutation_test_def np_true_divide_def map_replicate_const)

section \<open>The bootstrap test\<close>

lemma np_divide_zero_not_finite: "\<not> is_finite (np_divide x 0)"
  by (cases x) (simp_all add: np_true_divide_def)

lemma stats_sem_axis0_nth:
  assumes "i < r" and "j < c"
  shows "length (stats_sem_axis0 (r, c) slots) = r"
    and "length (stats_sem_axis0 (r, c) slots ! i) = c"
  using assms by (simp_all add: stats_sem_axis0_def)

lemma np_divide_arrays_nth:
  assumes "i < length A" "i < length B" "j < length (A ! i)" "j < length (B ! i)"
  shows "np_divide_arrays A B ! i ! j = np_divide (A ! i ! j) (B ! i ! j)"
  using assms by (simp add: np_divide_arrays_def)

text \<open>
  C6. The bootstrap ratios the bootstrap test returns are the element-wise division of
  the standard errors it returns by the reference \<open>V\<close>. At a position where \<open>V\<close> is
  zero the ratio is not finite (an infinity or NaN): nothing replaces it.
\<close>

theorem boot_ratios_division:
  assumes "bootstrap_test orc a niter dist' g = Inr ((conf_int, std_errs, boot_ratios), g')"
    and "rect (arg_V a)"
  shows "boot_ratios = np_divide_arrays std_errs (arg_V a) \<and>
         (\<forall>i<nrows (arg_V a). \<forall>j<ncols (arg_V a).
            boot_ratios ! i ! j = np_divide (std_errs ! i ! j) (arg_V a ! i ! j) \<and>
            (arg_V a ! i ! j = 0 \<longrightarrow> \<not> is_finite (boot_ratios ! i ! j)))"
proof -
  from assms(1) obtain right_sv_sampled where
    se: "std_errs = stats_sem_axis0 (shape (arg_V a)) right_sv_sampled" and
    br: "boot_ratios = np_divide_arrays std_errs (arg_V a)"
    by (auto simp: bootstrap_test_def Let_def split: if_splits sum.splits prod.splits)
  have "boot_ratios ! i ! j = np_divide (std_errs ! i ! j) (arg_V a ! i ! j)"
    if "i < nrows (arg_V a)" "j < ncols (arg_V a)" for i j
  proof -
    have "length (arg_V a ! i) = ncols (arg_V a)"
      using assms(2) that(1) by (rule rect_row_length)
    with that show ?thesis
      unfolding br se shape_def
      by (intro np_divide_arrays_nth) (simp_all add: stats_sem_axis0_nth nrows_def)
  qed
  then show ?thesis using br by (auto simp: np_divide_zero_not_finite)
qed

lemma example_bootstrap_loop:
  "bootstrap_loop table_oracles (example_args 0) 2 ([[0, 1], [1, 0]], [], [])
     = Inr ([], [[[0, 1], [1, 0]], [[1, 0], [0, 1]]], [[[0, 1], [1, 0]], [[0, 1], [1, 0]]])"
  by (simp add: numeral_2_eq_2 bootstrap_step_def boot_vectors_def engine_eval array_eval)

lemma sem_pair_equal: "sem_list [x, x] = Finite 0"
  by (simp add: sem_list_def)

lemma example_std_errs:
  "stats_sem_axis0 (2, 2) [[[0, 1], [1, 0]], [[0, 1], [1, 0]]]
     = [[Finite 0, Finite 0], [Finite 0, Finite 0]]"
  by (simp add: stats_sem_axis0_def upt_rec sem_pair_equal)

lemma quantile_pair_01: "0 \<le> q \<Longrightarrow> q < 1 \<Longrightarrow> quantile_linear q [0, 1] = q"
  by (simp add: quantile_linear_def Let_def floor_eq_iff)

lemma quantile_pair_10: "0 \<le> q \<Longrightarrow> q < 1 \<Longrightarrow> quantile_linear q [1, 0] = q"
  by (simp add: quantile_linear_def Let_def floor_eq_iff)

lemma example_conf_int:
  "0 \<le> q \<Longrightarrow> q < 1 \<Longrightarrow>
   quantile_axis0 q [[[0, 1], [1, 0]], [[1, 0], [0, 1]]] = [[q, q], [q, q]]"
  by (simp add: quantile_axis0_def ncols_def nrows_def upt_rec quantile_pair_01 quantile_pair_10)

text \<open>
  The bootstrap test on the example data, two iterations, for any \<^verbatim>\<open>dist\<close>: the first
  resample keeps the two rows, the second swaps them.
\<close>

lemma example_bootstrap_test:
  "bootstrap_test table_oracles (example_args 0) 2 d [[0, 1], [1, 0]]
     = Inr ((([[1/20, 1/20], [1/20, 1/20]], [[19/20, 19/20], [19/20, 19/20]]),
             [[Finite 0, Finite 0], [Finite 0, Finite 0]],
             [[NaN, Finite 0], [Finite 0, NaN]]), [])"
proof -
  have V: "arg_V (example_args 0) = [[0, 1], [1, 0]]"
    by (simp add: example_args_def)
  have sh: "shape [[0, 1], [1, 0::real]] = (2, 2)"
    by (simp add: shape_def nrows_def ncols_def)
  have ci: "confidence_interval table_oracles = confidence_interval_at (5/100, 95/100)"
    by (simp add: table_oracles_def)
  have loop: "bootstrap_loop table_oracles (example_args 0) (nat 2) ([[0, 1], [1, 0]], [], [])
     = Inr ([], [[[0, 1], [1, 0]], [[1, 0], [0, 1]]], [[[0, 1], [1, 0]], [[0, 1], [1, 0]]])"
    using example_bootstrap_loop by simp
  show ?thesis
    unfolding bootstrap_test_def loop
    by (simp add: V sh ci example_std_errs confidence_interval_at_def example_conf_int
        np_divide_arrays_def np_true_divide_def)
qed

theorem boot_ratios_division_witness:
  "rect (arg_V (example_args 0)) \<and>
   bootstrap_test table_oracles (example_args 0) 2 (1/20, 19/20) [[0, 1], [1, 0]]
     = Inr ((([[1/20, 1/20], [1/20, 1/20]], [[19/20, 19/20], [19/20, 19/20]]),
             [[Finite 0, Finite 0], [Finite 0, Finite 0]],
             [[NaN, Finite 0], [Finite 0, NaN]]), []) \<and>
   arg_V (example_args 0) ! 0 ! 0 = 0 \<and>
   [[NaN, Finite 0], [Finite 0, NaN]] =
     np_divide_arrays [[Finite 0, Finite 0], [Finite 0, Finite 0]] (arg_V (example_args 0)) \<and>
   \<not> is_finite ([[NaN, Finite 0], [Finite 0, NaN]] ! 0 ! 0)"
proof -
  have rc: "rect (arg_V (example_args 0))"
    by (simp add: example_args_def rect_def ncols_def)
  have z: "arg_V (example_args 0) ! 0 ! 0 = 0"
    by (simp add: example_args_def)
  note run = example_bootstrap_test[of "(1/20, 19/20)"]
  note inst = boot_ratios_division[OF run rc]
  from inst have eq: "[[NaN, Finite 0], [Finite 0, NaN]] =
     np_divide_arrays [[Finite 0, Finite 0], [Finite 0, Finite 0]] (arg_V (example_args 0))"
    by (rule conjunct1)
  have "0 < nrows (arg_V (example_args 0))" and "0 < ncols (arg_V (example_args 0))"
    by (simp_all add: example_args_def nrows_def ncols_def)
  with inst z have nf: "\<not> is_finite ([[NaN, Finite 0], [Finite 0, NaN]] ! 0 ! 0)"
    by blast
  from rc run z eq nf show ?thesis
    by (intro conjI)
qed

section \<open>The default condition order\<close>

lemma cond_inner_refs:
  "cond_refs (cond_inner sz gl ks st) = cond_refs st @ replicate (length ks) gl"
  by (induction ks arbitrary: st) (simp_all add: replicate_app_Cons_same)

lemma cond_inner_objects:
  "gl < length (objects st) \<Longrightarrow>
   objects (cond_inner sz gl ks st) =
     (objects st)[gl := objects st ! gl @ concat (map (\<lambda>k. replicate (nat sz) k) ks)]"
  by (induction ks arbitrary: st) simp_all

text \<open>
  What the store holds after the outer loop, read through the references: every group
  contributes its complete list once per condition, because each \<^verbatim>\<open>append\<close> of the
  inner loop stores a reference to the one list that the loop goes on extending.
\<close>

lemma cond_outer_deref:
  assumes "\<forall>a\<in>set (cond_refs st). a < length (objects st)"
  shows "map (\<lambda>a. objects (cond_outer gs ks st) ! a) (cond_refs (cond_outer gs ks st)) =
           map (\<lambda>a. objects st ! a) (cond_refs st) @
           concat (map (\<lambda>sz. replicate (length ks)
              (concat (map (\<lambda>k. replicate (nat sz) k) ks))) gs)"
  using assms
proof (induction gs arbitrary: st)
  case Nil
  then show ?case by simp
next
  case (Cons sz gs)
  let ?gl = "length (objects st)"
  let ?st1 = "cond_inner sz ?gl ks (st\<lparr>objects := objects st @ [[]]\<rparr>)"
  let ?blk = "concat (map (\<lambda>k. replicate (nat sz) k) ks)"
  have objs: "objects ?st1 = objects st @ [?blk]"
    by (simp add: cond_inner_objects)
  have refs: "cond_refs ?st1 = cond_refs st @ replicate (length ks) ?gl"
    by (simp add: cond_inner_refs)
  have valid: "\<forall>a\<in>set (cond_refs ?st1). a < length (objects ?st1)"
    using Cons.prems by (auto simp: objs refs less_Suc_eq)
  have old: "map (\<lambda>a. (objects st @ [?blk]) ! a) (cond_refs st)
               = map (\<lambda>a. objects st ! a) (cond_refs st)"
    using Cons.prems by (simp add: nth_append cong: map_cong)
  have d1: "map (\<lambda>a. objects ?st1 ! a) (cond_refs ?st1)
              = map (\<lambda>a. objects st ! a) (cond_refs st) @ replicate (length ks) ?blk"
    unfolding objs refs by (simp add: old)
  show ?case
    using Cons.IH[OF valid] by (simp add: d1)
qed

lemma get_cond_order_eq:
  "get_cond_order gs n =
     concat (map (\<lambda>sz. replicate (nat n)
        (concat (map (\<lambda>k. replicate (nat sz) k) (map int [0..<nat n])))) gs)"
proof -
  have "\<forall>a\<in>set (cond_refs \<lparr>objects = [], cond_refs = []\<rparr>).
          a < length (objects \<lparr>objects = [], cond_refs = []\<rparr>)"
    by simp
  from cond_outer_deref[OF this, of gs "map int [0..<nat n]"] show ?thesis
    by (simp add: get_cond_order_def Let_def)
qed

lemma length_get_cond_order: "length (get_cond_order gs n) = length gs * nat n"
  by (simp add: get_cond_order_eq length_concat comp_def sum_list_triv)

lemma get_cond_order_one_condition: "get_cond_order gs 1 = cond_order_documented gs 1"
  by (simp add: get_cond_order_eq cond_order_documented_def)

text \<open>
  C9. The claim: without a \<^verbatim>\<open>cond_order\<close> from the caller, the driver generates one
  list per group, the \<open>i\<close>-th of length \<^verbatim>\<open>groups_sizes[i] * num_conditions\<close>. The code
  appends inside the inner loop: for one group of two participants and two conditions it
  returns the group's list twice, where the docstring promises a list of length
  \<^verbatim>\<open>len(groups_tuple)\<close>.
\<close>

theorem cond_order_repeats_groups:
  "get_cond_order [2] 2 = [[0, 0, 1, 1], [0, 0, 1, 1]] \<and>
   cond_order_documented [2] 2 = [[0, 0, 1, 1]] \<and>
   length (get_cond_order [2] 2) \<noteq> length [2::int]"
  by code_simp

section \<open>The construction of the driver\<close>

lemma module_lookup_fails:
  "module_getattr bootstrap_permutation_module ''ResampleTestTaskPLS'' = Inl AttributeError"
  by (simp add: module_getattr_def bootstrap_permutation_module_def)

text \<open>
  Were the name bound to the class the module registers, the call would still fail: it
  passes three positional arguments where six parameters are required, and a keyword the
  class does not have.
\<close>

lemma registered_class_rejects_call:
  "call_object ctor (PyClass resample_test_params) [VMatrix X, VVector s, VCondOrder co]
     [(''preprocess'', VFunction ''_mean_center''), (''nperm'', VInt p),
      (''nboot'', VInt b), (''ngroups'', VInt g), (''nonrotated'', VNone)] = Inl TypeError"
  by (simp add: call_object_def bind_arguments_def resample_test_params_def)

lemma driver_init_attribute_error:
  assumes "gsvd (centered_scaled X) = Inr (U, s, V)"
    and "compute_latents (centered_scaled X) V 1 = Inr L"
  shows "driver_init gsvd ctor X None (Some [n]) num_conditions cond_order num_perm num_boot kwargs
           = Inl AttributeError"
  using assms
  by (simp add: driver_init_def get_groups_info_def mean_center_eq run_pls_def
      module_lookup_fails Let_def)

text \<open>
  C2. The claim: constructing the driver invokes the resample-test orchestrator once with
  the data, the decomposition \<open>(U, s, V)\<close> and the condition order, and stores its
  result. The constructor looks up \<^verbatim>\<open>ResampleTestTaskPLS\<close>, a name the module does not
  bind, and passes \<open>X\<close>, \<open>s\<close> and the condition order only: for no input does it return a
  driver.
\<close>

theorem driver_init_never_completes:
  "driver_init gsvd ctor X Y groups_sizes num_conditions cond_order num_perm num_boot kwargs
     \<noteq> Inr d"
  by (simp add: driver_init_def module_lookup_fails Let_def
      split: prod.splits sum.splits option.splits)

section \<open>Resampling a second matrix\<close>

lemma rows_not_in_one_order:
  "\<not> same_row_order [[1], [2]] [[2], [1]] [[10], [20]] [[10], [20]]"
proof
  assume "same_row_order [[1], [2]] [[2], [1]] [[10], [20]] [[10], [20]]"
  then obtain idx where
    h: "list_all (\<lambda>i. i < length [[1], [2::real]] \<and> i < length [[10], [20::real]]) idx \<and>
        [[2], [1::real]] = map (\<lambda>i. [[1], [2]] ! i) idx \<and>
        [[10], [20::real]] = map (\<lambda>i. [[10], [20]] ! i) idx"
    unfolding same_row_order_def ..
  from h have "length (map (\<lambda>i. [[1], [2::real]] ! i) idx) = length [[2], [1::real]]"
    by presburger
  then have "length idx = 2" by simp
  then obtain i j where idx: "idx = [i, j]"
    by (cases idx; cases "tl idx") auto
  from h idx have "i < 2" by simp
  then have "i = 0 \<or> i = 1" by auto
  with h idx show False by auto
qed

text \<open>
  C3. The claim: when \<open>Y\<close> is present, its rows are resampled in the row order drawn
  for \<open>X\<close> in that iteration. Both loops call the resampler a second time for \<open>Y\<close>, and
  that call draws again. With a source of randomness that first swaps two rows and then
  keeps them, \<open>X\<close> comes back swapped and \<open>Y\<close> unchanged: no list of row indices
  produces both.
\<close>

theorem second_draw_breaks_row_order:
  "resample_pair scripted_resample [[1, 0], [0, 1]] [[1], [2]] (Some [[10], [20]]) [[0, 0]]
     = ([[2], [1]], Some [[10], [20]], []) \<and>
   \<not> same_row_order [[1], [2]] [[2], [1]] [[10], [20]] [[10], [20]]"
  using rows_not_in_one_order
  by (simp add: resample_pair_def scripted_resample_def)

section \<open>The confidence interval and \<^verbatim>\<open>dist\<close>\<close>

text \<open>\<^verbatim>\<open>_bootstrap_test\<close> never reads its parameter \<^verbatim>\<open>dist\<close>.\<close>

lemma bootstrap_test_ignores_dist:
  "bootstrap_test orc a niter d g = bootstrap_test orc a niter d' g"
  by (simp add: bootstrap_test_def)

lemma example_degenerate_interval:
  "confidence_interval_at (1/2, 1/2) [[[0, 1], [1, 0]], [[1, 0], [0, 1]]]
     = ([[1/2, 1/2], [1/2, 1/2]], [[1/2, 1/2], [1/2, 1/2]])"
  by (simp add: confidence_interval_at_def example_conf_int)

text \<open>
  C4. The claim: the confidence interval is taken at the quantiles \<^verbatim>\<open>dist\<close>, so that
  \<open>(0.5, 0.5)\<close> gives equal lower and upper arrays. The code calls
  \<^verbatim>\<open>resample.confidence_interval(left_sv_sampled)\<close> without \<^verbatim>\<open>dist\<close>. On the example
  data with \<open>dist = (0.5, 0.5)\<close> the interval returned is the one at the default
  bounds, \<open>0.05\<close> below and \<open>0.95\<close> above, where the interval at \<open>(0.5, 0.5)\<close> of the
  same slots is \<open>0.5\<close> on both sides.
\<close>

theorem bootstrap_interval_not_at_dist:
  "bootstrap_test table_oracles (example_args 0) 2 (1/2, 1/2) [[0, 1], [1, 0]]
     = Inr ((([[1/20, 1/20], [1/20, 1/20]], [[19/20, 19/20], [19/20, 19/20]]),
             [[Finite 0, Finite 0], [Finite 0, Finite 0]],
             [[NaN, Finite 0], [Finite 0, NaN]]), []) \<and>
   confidence_interval_at (1/2, 1/2) [[[0, 1], [1, 0]], [[1, 0], [0, 1]]]
     = ([[1/2, 1/2], [1/2, 1/2]], [[1/2, 1/2], [1/2, 1/2]])"
  using example_bootstrap_test[of "(1/2, 1/2)"] example_degenerate_interval
  by (intro conjI)

section \<open>Singular values derived from the reference vectors\<close>

text \<open>
  What the bootstrap test derives, in general: for a rectangular \<open>permuted\<close> that fits
  \<open>V\<close>, its \<open>s_hat\<close> is the list of the row norms of \<open>permuted @ V\<close>, one entry per
  observation, where the permutation test takes the column norms, one per component.
\<close>

lemma dot_commute: "dot xs ys = dot ys xs"
proof -
  have h: "map2 (*) xs ys = map2 (*) ys xs"
    by (rule nth_equalityI) (simp_all add: min.commute mult.commute)
  show ?thesis
    unfolding dot_def by (rule arg_cong[OF h])
qed

lemma map_nth_fun: "map (\<lambda>j. g (P ! j)) [0..<length P] = map g P"
  by (rule nth_equalityI) simp_all

lemma column_np_T:
  assumes "rect M" and "j < nrows M"
  shows "column (np_T M) j = M ! j"
proof -
  have len: "length (M ! j) = ncols M"
    using assms by (rule rect_row_length)
  have "column (np_T M) j = map (\<lambda>i. M ! j ! i) [0..<ncols M]"
    using assms(2) by (simp add: column_def np_T_def nrows_def)
  also have "\<dots> = M ! j"
    using len by (metis map_nth)
  finally show ?thesis .
qed

lemma boot_singvals_are_row_norms:
  assumes "rect permuted" and "permuted \<noteq> []" and "ncols permuted = nrows V" and "0 < nrows V"
    and "0 < ncols V" and "matmul permuted V = Inr P"
  shows "\<exists>US_hat. boot_derived_singvals permuted V = Inr (US_hat, row_norms P)"
proof -
  let ?m = "nrows permuted" and ?n = "nrows V" and ?k = "ncols V"
  have P: "P = map (\<lambda>r. map (\<lambda>i. dot r (column V i)) [0..<?k]) permuted"
    using assms(6) by (simp add: matmul_def split: if_splits)
  have TV: "np_T V = map (column V) [0..<?k]" by (simp add: np_T_def)
  have TVne: "np_T V \<noteq> []" using assms(5) by (simp add: TV)
  have cTV: "ncols (np_T V) = ?n"
    using assms(5) by (simp add: TV ncols_def upt_conv_Cons column_def nrows_def)
  have rTp: "nrows (np_T permuted) = ?n"
    using assms(3) by (simp add: np_T_def nrows_def)
  have cTp: "ncols (np_T permuted) = ?m"
    using assms(3,4) by (simp add: np_T_def ncols_def upt_conv_Cons column_def nrows_def)
  define US where "US = map (\<lambda>r. map (\<lambda>j. dot r (column (np_T permuted) j)) [0..<?m]) (np_T V)"
  have mm: "matmul (np_T V) (np_T permuted) = Inr US"
    by (simp add: matmul_def cTV rTp cTp US_def)
  have cUS: "ncols US = ?m"
    using assms(5) by (simp add: US_def TV ncols_def upt_conv_Cons)
  have col: "column US j = map (\<lambda>i. dot (column V i) (permuted ! j)) [0..<?k]" if "j < ?m" for j
    using that by (simp add: US_def TV column_def column_np_T[OF assms(1), unfolded column_def])
  have "axis0_norms US = map (\<lambda>j. sqrt (sum_list (map (\<lambda>x. x\<^sup>2) (P ! j)))) [0..<length P]"
  proof -
    have "sum_list (map (\<lambda>x. x\<^sup>2) (column US j)) = sum_list (map (\<lambda>x. x\<^sup>2) (P ! j))"
      if "j < ?m" for j
      using that by (simp add: col P nrows_def dot_commute)
    then show ?thesis
      by (simp add: axis0_norms_def cUS P nrows_def)
  qed
  also have "\<dots> = row_norms P"
    unfolding row_norms_def by (rule map_nth_fun)
  finally show ?thesis
    by (simp add: boot_derived_singvals_def mm)
qed

text \<open>
  C7. The claim: for a reference \<open>V\<close> with orthonormal columns, rotation method 2 derives
  the same singular values in both engines. The permutation test takes the column norms
  of \<open>permuted @ V\<close>; the bootstrap test takes the column norms of the transposed
  product, which are the row norms of \<open>permuted @ V\<close>. For the matrix with rows
  \<open>(3, 0)\<close> and \<open>(4, 0)\<close> and the identity as \<open>V\<close> the first gives \<open>[5, 0]\<close> and the
  second \<open>[3, 4]\<close>.
\<close>

theorem derived_singvals_differ:
  "orthonormal_columns (identity 2) \<and>
   perm_derived_singvals [[3, 0], [4, 0]] (identity 2) = Inr [5, 0] \<and>
   boot_derived_singvals [[3, 0], [4, 0]] (identity 2) = Inr ([[3, 4], [0, 0]], [3, 4])"
  by (simp add: orthonormal_columns_def perm_derived_singvals_def boot_derived_singvals_def
      array_eval sqrt_9 sqrt_16 sqrt_25)

text \<open>For a matrix that is not square the two do not even have one length.\<close>

lemma derived_singvals_lengths_differ:
  "perm_derived_singvals [[3, 4]] (identity 2) = Inr [3, 4] \<and>
   boot_derived_singvals [[3, 4]] (identity 2) = Inr ([[3], [4]], [5])"
  by (simp add: perm_derived_singvals_def boot_derived_singvals_def array_eval
      sqrt_9 sqrt_16 sqrt_25)

section \<open>The rotation of the permutation test\<close>

text \<open>
  C8. The claim: rotation method 1 applies to the resampled right vectors the orthogonal
  rotation that best aligns them with the reference \<open>V\<close>, from the decomposition of
  \<open>V.T @ V_hat\<close>, and recomputes the singular values as the column norms of the
  projected matrix. The code multiplies \<open>U_bar\<close> by \<open>V.T\<close>, not by the third factor of
  that decomposition, and sums the squares of the transposed projection along axis 0,
  which gives row norms. With the decompositions of the table, the matrix with rows
  \<open>(3, 0)\<close> and \<open>(4, 0)\<close> and the quarter turn as \<open>V\<close>:
  \<^item> both decompositions used are singular value decompositions of their matrices;
  \<^item> the code's rotation is minus the identity, and the rotated vectors lie at squared
    distance 4 from \<open>V\<close>;
  \<^item> \<open>V\<close> itself is orthogonal, is what the two factors \<open>V_bar.T @ U_bar.T\<close> of the same
    decomposition give, and rotates \<open>V_hat\<close> onto \<open>V\<close> at distance 0;
  \<^item> the singular values returned are \<open>[3, 4]\<close>, the column norms of the projected matrix
    are \<open>[5, 0]\<close>.
\<close>

theorem rotation_not_procrustes:
  "is_svd [[3, 0], [4, 0]] (linalg_svd table_oracles [[3, 0], [4, 0]]) \<and>
   is_svd [[0, 1], [- 1, 0]] (linalg_svd table_oracles [[0, 1], [- 1, 0]]) \<and>
   perm_rotation table_oracles [[3, 0], [4, 0]] [[0, - 1], [1, 0]]
     = Inr ([[- 1, 0], [0, - 1]], [[- 1, 0], [0, - 1]], [[- 3, 0], [- 4, 0]], [3, 4]) \<and>
   sq_distance [[- 1, 0], [0, - 1]] [[0, - 1], [1, 0]] = 4 \<and>
   orthonormal_columns [[0, - 1], [1, 0]] \<and>
   matmul (np_T [[1, 0], [0, 1]]) (np_T [[0, 1], [- 1, 0]]) = Inr [[0, - 1], [1, 0]] \<and>
   matmul [[1, 0], [0, 1]] [[0, - 1], [1, 0]] = Inr [[0, - 1], [1, 0]] \<and>
   sq_distance [[0, - 1], [1, 0]] [[0, - 1], [1, 0]] = 0 \<and>
   axis0_norms [[- 3, 0], [- 4, 0]] = [5, 0]"
proof -
  have svds: "is_svd [[3, 0], [4, 0]] (linalg_svd table_oracles [[3, 0], [4, 0]])"
    "is_svd [[0, 1], [- 1, 0]] (linalg_svd table_oracles [[0, 1], [- 1, 0]])"
    using svd_table_valid(3,4) by (simp_all add: table_oracles_def)
  have rot: "perm_rotation table_oracles [[3, 0], [4, 0]] [[0, - 1], [1, 0]]
     = Inr ([[- 1, 0], [0, - 1]], [[- 1, 0], [0, - 1]], [[- 3, 0], [- 4, 0]], [3, 4])"
    by (simp add: perm_rotation_def table_oracles_def svd_table_def array_eval sqrt_9 sqrt_16)
  have rest: "sq_distance [[- 1, 0], [0, - 1]] [[0, - 1], [1, 0]] = 4"
    "orthonormal_columns [[0, - 1], [1, 0]]"
    "matmul (np_T [[1, 0], [0, 1]]) (np_T [[0, 1], [- 1, 0]]) = Inr [[0, - 1], [1, 0]]"
    "matmul [[1, 0], [0, 1]] [[0, - 1], [1, 0]] = Inr [[0, - 1], [1, 0]]"
    "sq_distance [[0, - 1], [1, 0]] [[0, - 1], [1, 0]] = 0"
    "axis0_norms [[- 3, 0], [- 4, 0]] = [5, 0]"
    by (simp_all add: sq_distance_def orthonormal_columns_def array_eval sqrt_25)
  from svds rot rest show ?thesis
    by (intro conjI)
qed

end
